theory Spec2Isabelle
  imports Main
begin

section \<open>Strings, exceptions and observable effects\<close>

text \<open>
  A Python \<open>str\<close> is a sequence of Unicode code points and \<open>len\<close> counts code points,
  so a string is modelled as the list of its code points. The Korean literals of
  \<open>app.py\<close> are written out as code points; ASCII literals go through \<open>ascii\<close>.
\<close>

type_synonym str = "nat list"

definition ascii :: "string \<Rightarrow> str" where
  "ascii s = map of_char s"

text \<open>An exception carries the text that \<open>str(e)\<close> yields.\<close>

datatype exn = Exception (message: str)

text \<open>
  Every call that leaves the process, and every output, is recorded in a log, in the
  order the calls are made. The arguments are the ones the source passes: the URL of a
  request; the model name, system content and user content of a completion; the query,
  summary, date and link of a Notion page; the line printed or shown; the seconds slept.
\<close>

datatype event =
    RequestsHead str
  | RequestsGet str
  | FeedparserParse str
  | ChatCompletionsCreate str str str
  | NotionPagesCreate str str str "str option"
  | Print str
  | Markdown str
  | Sleep nat

fun model_call :: "event \<Rightarrow> bool" where
  "model_call (ChatCompletionsCreate _ _ _) = True"
| "model_call _ = False"

fun archive_write :: "event \<Rightarrow> bool" where
  "archive_write (NotionPagesCreate _ _ _ _) = True"
| "archive_write _ = False"

text \<open>
  A Python computation starts from the log so far and ends with the extended log and
  either a value (\<open>Inr\<close>) or a raised exception (\<open>Inl\<close>).
\<close>

type_synonym 'a py = "event list \<Rightarrow> (exn + 'a) \<times> event list"

definition return :: "'a \<Rightarrow> 'a py" where
  "return x = (\<lambda>tr. (Inr x, tr))"

definition raise :: "exn \<Rightarrow> 'a py" where
  "raise e = (\<lambda>tr. (Inl e, tr))"

definition bind :: "'a py \<Rightarrow> ('a \<Rightarrow> 'b py) \<Rightarrow> 'b py" where
  "bind m f = (\<lambda>tr. case m tr of
                      (Inl e, tr') \<Rightarrow> (Inl e, tr')
                    | (Inr x, tr') \<Rightarrow> f x tr')"

definition try_except :: "'a py \<Rightarrow> (exn \<Rightarrow> 'a py) \<Rightarrow> 'a py" where
  "try_except m h = (\<lambda>tr. case m tr of
                            (Inl e, tr') \<Rightarrow> h e tr'
                          | (Inr x, tr') \<Rightarrow> (Inr x, tr'))"

definition emit :: "event \<Rightarrow> unit py" where
  "emit ev = (\<lambda>tr. (Inr (), tr @ [ev]))"

section \<open>The collaborators of \<open>app.py\<close>\<close>

record response =
  status_code :: int
  resp_text :: str

record entry =
  entry_title :: str
  entry_link :: str
  entry_published :: str

text \<open>
  The libraries and services \<open>app.py\<close> calls are parameters. What a service answers may
  depend on everything that happened before, so each of them reads the log so far.
  \<^item> \<open>requests_head\<close>: \<open>requests.head(url, allow_redirects=True, timeout=5)\<close>, giving
    \<open>res.url\<close> or raising;
  \<^item> \<open>requests_get\<close>: \<open>requests.get(url, headers=headers, timeout=5)\<close>, giving the
    response or raising;
  \<^item> \<open>find_all_p\<close>: \<open>BeautifulSoup(text, 'html.parser').find_all('p')\<close> followed by
    \<open>get_text()\<close> on each element, giving the paragraph texts or raising;
  \<^item> \<open>quote\<close>: \<open>urllib.parse.quote\<close>;
  \<^item> \<open>feedparser_parse\<close>: the \<open>entries\<close> of \<open>feedparser.parse(rss_url)\<close>, each with
    its \<open>title\<close>, \<open>link\<close> and \<open>published\<close>;
  \<^item> \<open>chat_completions_create\<close>: \<open>client.chat.completions.create\<close> with the model
    name, the system content and the user content, giving the \<open>message.content\<close> of
    each of \<open>response.choices\<close> or raising;
  \<^item> \<open>notion_pages_create\<close>: \<open>notion.pages.create\<close> with the four properties;
  \<^item> \<open>datetime_now_isoformat\<close>: \<open>datetime.now().isoformat()\<close>;
  \<^item> \<open>job_pending\<close>: whether \<open>schedule.run_pending()\<close> finds the daily job due.
\<close>

record world =
  requests_head :: "event list \<Rightarrow> str \<Rightarrow> exn + str"
  requests_get :: "event list \<Rightarrow> str \<Rightarrow> exn + response"
  find_all_p :: "str \<Rightarrow> exn + str list"
  quote :: "str \<Rightarrow> str"
  feedparser_parse :: "event list \<Rightarrow> str \<Rightarrow> entry list"
  chat_completions_create :: "event list \<Rightarrow> str \<Rightarrow> str \<Rightarrow> str \<Rightarrow> exn + str list"
  notion_pages_create :: "event list \<Rightarrow> str \<Rightarrow> str \<Rightarrow> str \<Rightarrow> str option \<Rightarrow> exn + unit"
  datetime_now_isoformat :: "event list \<Rightarrow> str"
  job_pending :: "event list \<Rightarrow> bool"

text \<open>A call to a service: the answer is read off the log so far, the call is logged.\<close>

definition call :: "(event list \<Rightarrow> exn + 'a) \<Rightarrow> event \<Rightarrow> 'a py" where
  "call answer ev = (\<lambda>tr. (answer tr, tr @ [ev]))"

definition lift :: "exn + 'a \<Rightarrow> 'a py" where
  "lift r = (\<lambda>tr. (r, tr))"

section \<open>Core functions\<close>

subsection \<open>\<open>get_real_url\<close>\<close>

definition get_real_url :: "world \<Rightarrow> str \<Rightarrow> str py" where
  "get_real_url w rss_link =
     try_except
       (bind (call (\<lambda>tr. requests_head w tr rss_link) (RequestsHead rss_link))
          (\<lambda>res_url. return res_url))
       (\<lambda>_. return rss_link)"

subsection \<open>\<open>crawl_article\<close>\<close>

definition access_restricted :: str where
  "access_restricted =
     [48376, 47928, 32, 49688, 51665, 32, 49892, 54056, 32, 40, 51217, 44540, 32, 51228, 54620, 41]"

definition no_content :: str where
  "no_content =
     [48376, 47928, 32, 49688, 51665, 32, 49892, 54056, 32, 40, 45236, 50857, 32, 50630, 51020, 41]"

definition crawling_error :: str where
  "crawling_error = [53356, 47204, 47553, 32, 50724, 47448, 58, 32]"

fun join :: "str \<Rightarrow> str list \<Rightarrow> str" where
  "join sep [] = []"
| "join sep [x] = x"
| "join sep (x # y # ys) = x @ sep @ join sep (y # ys)"

text \<open>The body of the \<open>try\<close> block of \<open>crawl_article\<close>.\<close>

definition crawl_article_try :: "world \<Rightarrow> str \<Rightarrow> str py" where
  "crawl_article_try w url =
     bind (call (\<lambda>tr. requests_get w tr url) (RequestsGet url))
       (\<lambda>response.
          if status_code response \<noteq> 200 then return access_restricted
          else
            bind (lift (find_all_p w (resp_text response)))
              (\<lambda>paragraphs.
                 let content = join (ascii '' '') paragraphs in
                 if length content < 50 then return no_content
                 else return (take 3000 content)))"

definition crawl_article :: "world \<Rightarrow> str \<Rightarrow> str py" where
  "crawl_article w url =
     try_except (crawl_article_try w url)
       (\<lambda>e. return (crawling_error @ message e))"

subsection \<open>\<open>fetch_google_news\<close>\<close>

record news_item =
  item_title :: str
  item_link :: str
  item_pubDate :: str
  item_content :: str

definition rss_url :: "world \<Rightarrow> str \<Rightarrow> str" where
  "rss_url w keyword =
     ascii ''https://news.google.com/rss/search?q='' @ quote w keyword
       @ ascii ''&hl=ko&gl=KR&ceid=KR:ko''"

text \<open>The \<open>for\<close> loop over \<open>feed.entries[:2]\<close>, appending to \<open>news_items\<close>.\<close>

fun fetch_entries :: "world \<Rightarrow> entry list \<Rightarrow> news_item list \<Rightarrow> news_item list py" where
  "fetch_entries w [] news_items = return news_items"
| "fetch_entries w (entry # rest) news_items =
     bind (get_real_url w (entry_link entry))
       (\<lambda>real_url.
          bind (crawl_article w real_url)
            (\<lambda>content.
               fetch_entries w rest
                 (news_items @
                    [\<lparr>item_title = entry_title entry, item_link = real_url,
                      item_pubDate = entry_published entry, item_content = content\<rparr>])))"

definition fetch_google_news :: "world \<Rightarrow> str \<Rightarrow> news_item list py" where
  "fetch_google_news w keyword =
     bind (call (\<lambda>tr. Inr (feedparser_parse w tr (rss_url w keyword)))
             (FeedparserParse (rss_url w keyword)))
       (\<lambda>entries. fetch_entries w (take 2 entries) [])"

subsection \<open>\<open>summarize_news\<close>\<close>

definition MODEL_NAME :: str where
  "MODEL_NAME = ascii ''gpt-5-nano''"

text \<open>The decimal digits that an f-string gives for the index \<open>idx\<close>.\<close>

fun str_of_nat :: "nat \<Rightarrow> str" where
  "str_of_nat n = (if n < 10 then [48 + n] else str_of_nat (n div 10) @ [48 + n mod 10])"

text \<open>
  The loop over \<open>enumerate(news_data, 1)\<close>: each round appends a line feed, an opening
  bracket, the two-syllable word for "article", a space, the index, a colon and a space,
  the title, a closing bracket, a line feed, the four-syllable label for "body text", a
  colon and a space, the content, and a line feed.
\<close>

fun prompt_text_loop :: "nat \<Rightarrow> news_item list \<Rightarrow> str \<Rightarrow> str" where
  "prompt_text_loop idx [] prompt_text = prompt_text"
| "prompt_text_loop idx (item # rest) prompt_text =
     prompt_text_loop (idx + 1) rest
       (prompt_text @ [10, 91, 44592, 49324, 32] @ str_of_nat idx @ ascii '': ''
          @ item_title item @ [93, 10, 48376, 47928, 45236, 50857, 58, 32]
          @ item_content item @ [10])"

definition system_prompt :: "str \<Rightarrow> str" where
  "system_prompt query =
     [49324, 50857, 51088, 44032, 32, 39] @ query @
     [39, 50640, 32, 45824, 54644, 32, 44160, 49353, 54664, 50612, 46, 32, 50948, 32,
      44592, 49324, 46308, 51032, 32, 39, 48376, 47928, 45236, 50857, 39, 51012, 32,
      48148, 53461, 51004, 47196, 32, 54645, 49900, 32, 51221, 48372, 47484, 32, 51333,
      54633, 54644, 49436, 32, 51, 51460, 47196, 32, 44628, 45140, 54616, 44172, 32,
      50836, 50557, 54644, 51480, 46]"

definition IndexError :: exn where
  "IndexError = Exception (ascii ''list index out of range'')"

definition summarize_news :: "world \<Rightarrow> news_item list \<Rightarrow> str \<Rightarrow> str py" where
  "summarize_news w news_data query =
     (let prompt_text = prompt_text_loop 1 news_data [] in
      bind (call (\<lambda>tr. chat_completions_create w tr MODEL_NAME (system_prompt query) prompt_text)
              (ChatCompletionsCreate MODEL_NAME (system_prompt query) prompt_text))
        (\<lambda>choices. case choices of
                      [] \<Rightarrow> raise IndexError
                    | content # _ \<Rightarrow> return content))"

subsection \<open>\<open>save_to_notion\<close>\<close>

definition save_to_notion :: "world \<Rightarrow> str \<Rightarrow> str \<Rightarrow> str option \<Rightarrow> bool py" where
  "save_to_notion w query summary link =
     try_except
       (\<lambda>tr.
          (let date = datetime_now_isoformat w tr;
               url = (case link of
                        None \<Rightarrow> None
                      | Some l \<Rightarrow> if l \<noteq> [] then Some l else None)
           in bind (call (\<lambda>tr. notion_pages_create w tr query summary date url)
                      (NotionPagesCreate query summary date url))
                (\<lambda>_. bind (emit (Print (ascii ''[Log] Notion saved: '' @ query)))
                   (\<lambda>_. return True))) tr)
       (\<lambda>e. bind (emit (Print (ascii ''[Error] Notion save failed: '' @ message e)))
          (\<lambda>_. return False))"

section \<open>The scheduled job and its loop\<close>

definition target_keyword :: str where
  "target_keyword = [52572, 49888, 32, 65, 73, 32, 44592, 49696]"

definition auto_tag :: str where
  "auto_tag = [91, 51088, 46041, 93, 32]"

definition job_start_line :: str where
  "job_start_line = [9200, 32, 51088, 46041, 32, 49688, 51665, 32, 49884, 51089, 46, 46, 46]"

definition job_done_line :: str where
  "job_done_line = [9989, 32, 51088, 46041, 32, 49688, 51665, 32, 50756, 47308]"

definition scheduled_job :: "world \<Rightarrow> unit py" where
  "scheduled_job w =
     bind (emit (Print job_start_line))
       (\<lambda>_. bind (fetch_google_news w target_keyword)
          (\<lambda>items.
             bind (if items \<noteq> [] then
                     bind (summarize_news w items target_keyword)
                       (\<lambda>summary.
                          bind (save_to_notion w (auto_tag @ target_keyword) summary
                                  (Some (item_link (items ! 0))))
                            (\<lambda>_. return ()))
                   else return ())
               (\<lambda>_. emit (Print job_done_line))))"

text \<open>
  \<open>schedule.run_pending()\<close> runs the one registered job when it is due; nothing between
  the job and the loop catches an exception.
\<close>

definition run_pending :: "world \<Rightarrow> unit py" where
  "run_pending w = (\<lambda>tr. if job_pending w tr then scheduled_job w tr else return () tr)"

text \<open>
  The \<open>while True\<close> loop of \<open>start_scheduler\<close> never returns; the model runs its first
  \<open>n\<close> rounds. The value \<open>Inr ()\<close> says that the loop is still running after them, and
  \<open>Inl e\<close> that an exception \<open>e\<close> has left the loop and ended the thread.
\<close>

fun start_scheduler :: "world \<Rightarrow> nat \<Rightarrow> unit py" where
  "start_scheduler w 0 = return ()"
| "start_scheduler w (Suc n) =
     bind (run_pending w)
       (\<lambda>_. bind (emit (Sleep 1))
          (\<lambda>_. start_scheduler w n))"

section \<open>The chat handler\<close>

definition greetings :: "str list" where
  "greetings = [[50504, 45397], [48152, 44032, 50892]]"

definition greeting_reply :: str where
  "greeting_reply =
     [50504, 45397, 54616, 49464, 50836, 33, 32, 47924, 50631, 51012, 32, 46020, 50752,
      46300, 47540, 44620, 50836, 63]"

definition progress_notice :: str where
  "progress_notice =
     [128373, 65039, 32, 44592, 49324, 32, 48376, 47928, 51012, 32, 51069, 44256, 32,
      50836, 50557, 32, 51473, 51077, 45768, 45796, 46, 46, 46, 32, 40, 49884, 44036,
      51060, 32, 51312, 44552, 32, 44152, 47140, 50836, 41]"

definition not_found :: str where
  "not_found =
     [44288, 47144, 32, 44592, 49324, 47484, 32, 52286, 51648, 32, 47803, 54664, 44144,
      45208, 32, 51217, 44540, 51060, 32, 51228, 54620, 46104, 50632, 49845, 45768,
      45796, 46]"

definition summary_header :: "str \<Rightarrow> str \<Rightarrow> str" where
  "summary_header prompt summary =
     ascii ''**['' @ [39] @ prompt @ [39, 32, 49900, 52789, 32, 50836, 50557, 93, 42, 42, 10, 10]
       @ summary @ [10, 10, 42, 42, 52636, 52376, 58, 42, 42]"

fun source_lines :: "news_item list \<Rightarrow> str \<Rightarrow> str" where
  "source_lines [] full_response = full_response"
| "source_lines (item # rest) full_response =
     source_lines rest
       (full_response @ [10] @ ascii ''- ['' @ item_title item @ ascii '']('' @ item_link item
          @ ascii '')'')"

text \<open>
  Lines 180 to 194: the value of \<open>full_response\<close> for a submitted \<open>prompt\<close>.
\<close>

definition chat_response :: "world \<Rightarrow> str \<Rightarrow> str py" where
  "chat_response w prompt =
     (if prompt \<in> set greetings then return greeting_reply
      else
        bind (emit (Markdown progress_notice))
          (\<lambda>_. bind (fetch_google_news w prompt)
             (\<lambda>items.
                if items \<noteq> [] then
                  bind (summarize_news w items prompt)
                    (\<lambda>summary.
                       bind (save_to_notion w prompt summary (Some (item_link (items ! 0))))
                         (\<lambda>_. return (source_lines items (summary_header prompt summary))))
                else return not_found)))"

section \<open>Starting the scheduler thread\<close>

text \<open>
  Streamlit runs the script from top to bottom once when a browser session opens and
  again at every interaction in that session. \<open>st.session_state\<close> belongs to the
  session: a new session starts with no keys, and the keys a run sets are there at the
  next run of the same session. The process, its environment variables and its threads
  are shared by all sessions.
\<close>

record config =
  openai_api_key :: "str option"
  notion_api_key :: "str option"
  notion_db_id :: "str option"

text \<open>Python's \<open>not value\<close> for the value of \<open>os.getenv\<close>: unset or empty.\<close>

definition missing :: "str option \<Rightarrow> bool" where
  "missing v = (case v of None \<Rightarrow> True | Some s \<Rightarrow> s = [])"

record session_state =
  scheduler_started :: "bool option"

definition empty_session_state :: session_state where
  "empty_session_state = \<lparr>scheduler_started = None\<rparr>"

text \<open>
  Lines 22 to 29 and 150 to 153 of one run of the script, on the state of the session
  it runs in and the number of scheduler threads the process has started.
\<close>

definition script_run :: "config \<Rightarrow> session_state \<times> nat \<Rightarrow> session_state \<times> nat" where
  "script_run cfg st =
     (case st of (session, threads) \<Rightarrow>
        if missing (openai_api_key cfg) then (session, threads)
        else if missing (notion_api_key cfg) \<or> missing (notion_db_id cfg) then (session, threads)
        else if scheduler_started session = None then
          (session\<lparr>scheduler_started := Some True\<rparr>, threads + 1)
        else (session, threads))"

record process =
  sessions :: "session_state list"
  threads_started :: nat

datatype action = OpenSession | Interact nat

definition process_step :: "config \<Rightarrow> process \<Rightarrow> action \<Rightarrow> process" where
  "process_step cfg p a =
     (case a of
        OpenSession \<Rightarrow>
          (case script_run cfg (empty_session_state, threads_started p) of
             (session, threads) \<Rightarrow>
               \<lparr>sessions = sessions p @ [session], threads_started = threads\<rparr>)
      | Interact i \<Rightarrow>
          if i < length (sessions p) then
            (case script_run cfg (sessions p ! i, threads_started p) of
               (session, threads) \<Rightarrow>
                 \<lparr>sessions = (sessions p)[i := session], threads_started = threads\<rparr>)
          else p)"

definition process_start :: process where
  "process_start = \<lparr>sessions = [], threads_started = 0\<rparr>"

definition process_run :: "config \<Rightarrow> action list \<Rightarrow> process" where
  "process_run cfg acts = foldl (process_step cfg) process_start acts"

section \<open>Example worlds\<close>

text \<open>
  A world in which every service answers: the feed has three entries, the first article
  has two paragraphs of 40 characters, the second has two short ones and the third is
  refused with status 404.
\<close>

definition example_entries :: "entry list" where
  "example_entries =
     [\<lparr>entry_title = ascii ''A'', entry_link = ascii ''a'', entry_published = ascii ''Mon''\<rparr>,
      \<lparr>entry_title = ascii ''B'', entry_link = ascii ''b'', entry_published = ascii ''Tue''\<rparr>,
      \<lparr>entry_title = ascii ''C'', entry_link = ascii ''c'', entry_published = ascii ''Wed''\<rparr>]"

definition example_world :: world where
  "example_world =
     \<lparr>requests_head = (\<lambda>tr url. Inr (url @ ascii ''/x'')),
      requests_get =
        (\<lambda>tr url. if url = ascii ''a/x'' then Inr \<lparr>status_code = 200, resp_text = ascii ''long''\<rparr>
                   else if url = ascii ''b/x'' then Inr \<lparr>status_code = 200, resp_text = ascii ''short''\<rparr>
                   else Inr \<lparr>status_code = 404, resp_text = []\<rparr>),
      find_all_p =
        (\<lambda>text. if text = ascii ''long'' then Inr [replicate 40 97, replicate 40 98]
                 else Inr [ascii ''hi'', ascii ''there'']),
      quote = (\<lambda>s. s),
      feedparser_parse = (\<lambda>tr url. example_entries),
      chat_completions_create = (\<lambda>tr model system user. Inr [ascii ''summary'']),
      notion_pages_create = (\<lambda>tr query summary date link. Inr ()),
      datetime_now_isoformat = (\<lambda>tr. ascii ''2024-01-01T09:00:00''),
      job_pending = (\<lambda>tr. True)\<rparr>"

definition timeout :: exn where
  "timeout = Exception (ascii ''timed out'')"

definition example_items :: "news_item list" where
  "example_items =
     [\<lparr>item_title = ascii ''A'', item_link = ascii ''a/x'', item_pubDate = ascii ''Mon'',
       item_content = replicate 40 97 @ [32] @ replicate 40 98\<rparr>,
      \<lparr>item_title = ascii ''B'', item_link = ascii ''b/x'', item_pubDate = ascii ''Tue'',
       item_content = no_content\<rparr>]"

text \<open>The requests that \<open>fetch_google_news\<close> makes in the example world.\<close>

definition example_requests :: "str \<Rightarrow> event list" where
  "example_requests keyword =
     [FeedparserParse (ascii ''https://news.google.com/rss/search?q='' @ keyword
                         @ ascii ''&hl=ko&gl=KR&ceid=KR:ko''),
      RequestsHead (ascii ''a''), RequestsGet (ascii ''a/x''),
      RequestsHead (ascii ''b''), RequestsGet (ascii ''b/x'')]"

text \<open>
  A world in which \<open>requests.get\<close> refuses a URL without a scheme, with a message that
  quotes the URL.
\<close>

definition no_scheme_world :: world where
  "no_scheme_world =
     example_world\<lparr>requests_get :=
       \<lambda>tr url. Inl (Exception (ascii ''Invalid URL '' @ url @ ascii '': No scheme supplied''))\<rparr>"

text \<open>A world in which every page is answered with status 204 and an empty body.\<close>

definition no_content_204_world :: world where
  "no_content_204_world =
     example_world\<lparr>requests_get := \<lambda>tr url. Inr \<lparr>status_code = 204, resp_text = []\<rparr>,
                   find_all_p := \<lambda>text. Inr []\<rparr>"

definition example_config :: config where
  "example_config =
     \<lparr>openai_api_key = Some (ascii ''sk''), notion_api_key = Some (ascii ''secret''),
      notion_db_id = Some (ascii ''db'')\<rparr>"

section \<open>What the functions return\<close>

lemma get_real_url_returns:
  "\<exists>u. get_real_url w l tr = (Inr u, tr @ [RequestsHead l])"
  by (cases "requests_head w tr l")
     (simp_all add: get_real_url_def try_except_def bind_def call_def return_def)

lemma crawl_article_try_log:
  "snd (crawl_article_try w url tr) = tr @ [RequestsGet url]"
  by (simp add: crawl_article_try_def bind_def call_def return_def lift_def Let_def
      split: sum.splits prod.splits)

lemma crawl_article_try_length:
  "fst (crawl_article_try w url tr) = Inr s \<Longrightarrow> length s \<le> 3000"
  by (auto simp add: crawl_article_try_def bind_def call_def return_def lift_def Let_def
      access_restricted_def no_content_def
      split: sum.splits prod.splits if_splits)

lemma crawl_article_returns:
  "crawl_article w url tr =
     (Inr (case fst (crawl_article_try w url tr) of
             Inl e \<Rightarrow> crawling_error @ message e | Inr s \<Rightarrow> s),
      tr @ [RequestsGet url])"
  using crawl_article_try_log [of w url tr]
  by (cases "crawl_article_try w url tr")
     (simp add: crawl_article_def try_except_def return_def split: sum.splits)

lemma fetch_entries_returns:
  "\<exists>items tr'. fetch_entries w es acc tr = (Inr (acc @ items), tr') \<and> length items = length es
     \<and> (\<forall>item \<in> set items. length (item_content item) \<le> 3000 \<or>
           (\<exists>e. item_content item = crawling_error @ message e))"
proof (induction es arbitrary: acc tr)
  case Nil
  show ?case by (simp add: return_def)
next
  case (Cons entry rest)
  obtain u where u: "get_real_url w (entry_link entry) tr = (Inr u, tr @ [RequestsHead (entry_link entry)])"
    using get_real_url_returns by blast
  let ?tr1 = "tr @ [RequestsHead (entry_link entry)]"
  let ?c = "case fst (crawl_article_try w u ?tr1) of
             Inl e \<Rightarrow> crawling_error @ message e | Inr s \<Rightarrow> s"
  let ?item = "\<lparr>item_title = entry_title entry, item_link = u,
                      item_pubDate = entry_published entry, item_content = ?c\<rparr>"
  have c: "length ?c \<le> 3000 \<or> (\<exists>e. ?c = crawling_error @ message e)"
    by (cases "fst (crawl_article_try w u ?tr1)") (auto dest: crawl_article_try_length)
  from Cons.IH [of "acc @ [?item]" "?tr1 @ [RequestsGet u]"]
  obtain items tr' where
    r: "fetch_entries w rest (acc @ [?item]) (?tr1 @ [RequestsGet u]) = (Inr ((acc @ [?item]) @ items), tr')"
    and l: "length items = length rest"
    and b: "\<forall>item \<in> set items. length (item_content item) \<le> 3000 \<or>
           (\<exists>e. item_content item = crawling_error @ message e)"
    by blast
  have "fetch_entries w (entry # rest) acc tr = (Inr (acc @ (?item # items)), tr')"
    using r by (simp add: bind_def u crawl_article_returns)
  moreover have "length (?item # items) = length (entry # rest)" using l by simp
  moreover have "\<forall>item \<in> set (?item # items). length (item_content item) \<le> 3000 \<or>
           (\<exists>e. item_content item = crawling_error @ message e)"
    using b c by simp
  ultimately show ?case by blast
qed

lemma fetch_google_news_returns:
  "\<exists>items tr'. fetch_google_news w keyword tr = (Inr items, tr')
     \<and> length items = length (take 2 (feedparser_parse w tr (rss_url w keyword)))
     \<and> (items = [] \<longrightarrow> tr' = tr @ [FeedparserParse (rss_url w keyword)])
     \<and> (\<forall>item \<in> set items. length (item_content item) \<le> 3000 \<or>
           (\<exists>e. item_content item = crawling_error @ message e))"
proof -
  define es where "es = take 2 (feedparser_parse w tr (rss_url w keyword))"
  let ?tr1 = "tr @ [FeedparserParse (rss_url w keyword)]"
  obtain items tr' where
    r: "fetch_entries w es [] ?tr1 = (Inr ([] @ items), tr')"
    and l: "length items = length es"
    and b: "\<forall>item \<in> set items. length (item_content item) \<le> 3000 \<or>
           (\<exists>e. item_content item = crawling_error @ message e)"
    using fetch_entries_returns [of w es "[]" ?tr1] by blast
  have f: "fetch_google_news w keyword tr = (Inr items, tr')"
    using r by (simp add: fetch_google_news_def bind_def call_def es_def)
  have "items = [] \<longrightarrow> tr' = ?tr1"
  proof
    assume "items = []"
    with l have "es = []" by simp
    with r show "tr' = ?tr1" by (simp add: return_def)
  qed
  with f l b show ?thesis unfolding es_def by blast
qed

lemma summarize_news_result:
  "summarize_news w items query tr =
     ((case chat_completions_create w tr MODEL_NAME (system_prompt query) (prompt_text_loop 1 items []) of
         Inl e \<Rightarrow> Inl e
       | Inr [] \<Rightarrow> Inl IndexError
       | Inr (content # _) \<Rightarrow> Inr content),
      tr @ [ChatCompletionsCreate MODEL_NAME (system_prompt query) (prompt_text_loop 1 items [])])"
  by (simp add: summarize_news_def bind_def call_def return_def raise_def Let_def
      split: sum.splits list.splits)

lemma save_to_notion_result:
  "\<exists>saved line. save_to_notion w query summary link tr =
     (Inr saved,
      tr @ [NotionPagesCreate query summary (datetime_now_isoformat w tr)
              (case link of None \<Rightarrow> None | Some l \<Rightarrow> if l \<noteq> [] then Some l else None),
            Print line])"
  by (cases "notion_pages_create w tr query summary (datetime_now_isoformat w tr)
              (case link of None \<Rightarrow> None | Some l \<Rightarrow> if l \<noteq> [] then Some l else None)")
     (auto simp add: save_to_notion_def try_except_def bind_def call_def return_def emit_def Let_def)

lemma scheduled_job_unfold:
  "fetch_google_news w target_keyword (tr @ [Print job_start_line]) = (Inr items, tr1) \<Longrightarrow>
   scheduled_job w tr =
     (if items \<noteq> [] then
        (case summarize_news w items target_keyword tr1 of
           (Inl e, tr2) \<Rightarrow> (Inl e, tr2)
         | (Inr summary, tr2) \<Rightarrow>
             (case save_to_notion w (auto_tag @ target_keyword) summary
                     (Some (item_link (items ! 0))) tr2 of
                (Inl e, tr3) \<Rightarrow> (Inl e, tr3)
              | (Inr saved, tr3) \<Rightarrow> (Inr (), tr3 @ [Print job_done_line])))
      else (Inr (), tr1 @ [Print job_done_line]))"
  by (simp add: scheduled_job_def bind_def emit_def return_def split: sum.splits prod.splits)

lemma chat_response_unfold:
  "prompt \<notin> set greetings \<Longrightarrow>
   fetch_google_news w prompt (tr @ [Markdown progress_notice]) = (Inr items, tr1) \<Longrightarrow>
   chat_response w prompt tr =
     (if items \<noteq> [] then
        (case summarize_news w items prompt tr1 of
           (Inl e, tr2) \<Rightarrow> (Inl e, tr2)
         | (Inr summary, tr2) \<Rightarrow>
             (case save_to_notion w prompt summary (Some (item_link (items ! 0))) tr2 of
                (Inl e, tr3) \<Rightarrow> (Inl e, tr3)
              | (Inr saved, tr3) \<Rightarrow>
                  (Inr (source_lines items (summary_header prompt summary)), tr3)))
      else (Inr not_found, tr1))"
  by (simp add: chat_response_def bind_def emit_def return_def split: sum.splits prod.splits)

lemma start_scheduler_round:
  "start_scheduler w (Suc n) tr =
     (if job_pending w tr then
        (case scheduled_job w tr of
           (Inl e, tr') \<Rightarrow> (Inl e, tr')
         | (Inr u, tr') \<Rightarrow> start_scheduler w n (tr' @ [Sleep 1]))
      else start_scheduler w n (tr @ [Sleep 1]))"
  by (simp add: run_pending_def bind_def emit_def return_def split: sum.splits prod.splits)

lemma fetch_entries_log:
  "\<exists>rest. snd (fetch_entries w es acc tr) = tr @ rest"
proof (induction es arbitrary: acc tr)
  case Nil
  show ?case by (simp add: return_def)
next
  case (Cons entry rest)
  obtain u where u: "get_real_url w (entry_link entry) tr = (Inr u, tr @ [RequestsHead (entry_link entry)])"
    using get_real_url_returns by blast
  show ?case
    using Cons.IH [of _ "tr @ [RequestsHead (entry_link entry), RequestsGet u]"]
    by (simp add: bind_def u crawl_article_returns) blast
qed

lemma fetch_google_news_log:
  "\<exists>rest. snd (fetch_google_news w keyword tr) = tr @ FeedparserParse (rss_url w keyword) # rest"
  using fetch_entries_log [of w "take 2 (feedparser_parse w tr (rss_url w keyword))" "[]"
      "tr @ [FeedparserParse (rss_url w keyword)]"]
  by (auto simp add: fetch_google_news_def bind_def call_def)

lemma greetings_iff:
  "prompt \<in> set greetings \<longleftrightarrow> prompt = [50504, 45397] \<or> prompt = [48152, 44032, 50892]"
  by (auto simp add: greetings_def)

lemma greetings_extended:
  "g \<in> set greetings \<Longrightarrow> x \<noteq> [] \<or> y \<noteq> [] \<Longrightarrow> x @ g @ y \<notin> set greetings"
  by (auto simp add: greetings_def append_eq_Cons_conv Cons_eq_append_conv)

lemma chat_response_log:
  assumes "prompt \<notin> set greetings"
  shows "\<exists>r rest. chat_response w prompt tr =
           (r, tr @ Markdown progress_notice # FeedparserParse (rss_url w prompt) # rest)"
proof -
  obtain items tr1 where f: "fetch_google_news w prompt (tr @ [Markdown progress_notice]) = (Inr items, tr1)"
    using fetch_google_news_returns [of w prompt "tr @ [Markdown progress_notice]"] by blast
  obtain rest where t: "tr1 = tr @ Markdown progress_notice # FeedparserParse (rss_url w prompt) # rest"
    using fetch_google_news_log [of w prompt "tr @ [Markdown progress_notice]"] f by auto
  have n: "\<exists>saved line.
      save_to_notion w prompt summary (Some (item_link (items ! 0))) tr2 =
        (Inr saved, tr2 @ [NotionPagesCreate prompt summary (datetime_now_isoformat w tr2)
              (if item_link (items ! 0) \<noteq> [] then Some (item_link (items ! 0)) else None),
            Print line])" for summary tr2
    using save_to_notion_result [of w prompt summary "Some (item_link (items ! 0))" tr2] by simp
  show ?thesis
  proof (cases "items = []")
    case True
    then show ?thesis using assms f t by (simp add: chat_response_unfold)
  next
    case False
    show ?thesis
    proof (cases "fst (summarize_news w items prompt tr1)")
      case (Inl e)
      then show ?thesis using assms f t False
        by (simp add: chat_response_unfold summarize_news_result)
    next
      case (Inr summary)
      let ?tr2 = "tr1 @ [ChatCompletionsCreate MODEL_NAME (system_prompt prompt)
                            (prompt_text_loop 1 items [])]"
      from n [of summary ?tr2] obtain saved line where
        "save_to_notion w prompt summary (Some (item_link (items ! 0))) ?tr2 =
        (Inr saved, ?tr2 @ [NotionPagesCreate prompt summary (datetime_now_isoformat w ?tr2)
              (if item_link (items ! 0) \<noteq> [] then Some (item_link (items ! 0)) else None),
            Print line])" by blast
      with Inr show ?thesis using assms f t False
        by (simp add: chat_response_unfold summarize_news_result)
    qed
  qed
qed

lemma example_fetch:
  "feedparser_parse w = (\<lambda>tr url. example_entries) \<Longrightarrow>
   requests_head w = requests_head example_world \<Longrightarrow>
   requests_get w = requests_get example_world \<Longrightarrow>
   find_all_p w = find_all_p example_world \<Longrightarrow>
   quote w = (\<lambda>s. s) \<Longrightarrow>
   fetch_google_news w keyword tr = (Inr example_items, tr @ example_requests keyword)"
  by (simp add: fetch_google_news_def example_world_def example_entries_def bind_def
      call_def return_def get_real_url_def crawl_article_def crawl_article_try_def
      try_except_def lift_def rss_url_def ascii_def example_items_def example_requests_def)

lemma script_run_started:
  "\<not> missing (openai_api_key cfg) \<Longrightarrow> \<not> missing (notion_api_key cfg) \<Longrightarrow>
   \<not> missing (notion_db_id cfg) \<Longrightarrow>
   script_run cfg (session, threads) =
     (if scheduler_started session = None
      then (session\<lparr>scheduler_started := Some True\<rparr>, Suc threads)
      else (session, threads))"
  by (simp add: script_run_def)

lemma process_run_counts_from:
  assumes "\<not> missing (openai_api_key cfg)" "\<not> missing (notion_api_key cfg)"
    "\<not> missing (notion_db_id cfg)"
  shows "\<forall>s \<in> set (sessions p). scheduler_started s \<noteq> None \<Longrightarrow>
         threads_started (foldl (process_step cfg) p acts)
           = threads_started p + length (filter (\<lambda>a. a = OpenSession) acts)"
proof (induction acts arbitrary: p)
  case Nil
  show ?case by simp
next
  case (Cons a acts)
  show ?case
  proof (cases a)
    case OpenSession
    define p' where "p' = process_step cfg p OpenSession"
    have t: "threads_started p' = Suc (threads_started p)"
      and s: "sessions p' = sessions p @ [empty_session_state\<lparr>scheduler_started := Some True\<rparr>]"
      using assms
      by (simp_all add: p'_def process_step_def script_run_started empty_session_state_def)
    have "\<forall>s \<in> set (sessions p'). scheduler_started s \<noteq> None"
      using Cons.prems by (auto simp add: s)
    from Cons.IH [OF this] show ?thesis
      using OpenSession t by (simp add: p'_def)
  next
    case (Interact i)
    have "process_step cfg p (Interact i) = p"
    proof (cases "i < length (sessions p)")
      case True
      then have "scheduler_started (sessions p ! i) \<noteq> None"
        using Cons.prems by simp
      then show ?thesis
        using assms True
        by (auto simp add: process_step_def script_run_started)
    next
      case False
      then show ?thesis by (simp add: process_step_def)
    qed
    with Cons.IH [of p] Cons.prems show ?thesis
      using Interact by simp
  qed
qed

lemma threads_started_counts_sessions:
  assumes "\<not> missing (openai_api_key cfg)" "\<not> missing (notion_api_key cfg)"
    "\<not> missing (notion_db_id cfg)"
  shows "threads_started (process_run cfg acts) = length (filter (\<lambda>a. a = OpenSession) acts)"
  using process_run_counts_from [OF assms, of process_start acts]
  by (simp add: process_run_def process_start_def)

section \<open>Properties\<close>

text \<open>
  C7: when the \<open>requests.head\<close> call of \<open>get_real_url\<close> raises, whatever the exception,
  \<open>get_real_url\<close> returns the link it was given, unchanged, and raises nothing.
\<close>

theorem get_real_url_failure:
  "requests_head w tr rss_link = Inl e \<Longrightarrow>
   get_real_url w rss_link tr = (Inr rss_link, tr @ [RequestsHead rss_link])"
  by (simp add: get_real_url_def try_except_def bind_def call_def return_def)

theorem get_real_url_failure_witness:
  "requests_head (example_world\<lparr>requests_head := \<lambda>tr url. Inl timeout\<rparr>) [] (ascii ''a'') = Inl timeout
   \<and> get_real_url (example_world\<lparr>requests_head := \<lambda>tr url. Inl timeout\<rparr>) (ascii ''a'') []
       = (Inr (ascii ''a''), [RequestsHead (ascii ''a'')])"
  using get_real_url_failure [of "example_world\<lparr>requests_head := \<lambda>tr url. Inl timeout\<rparr>" "[]" "ascii ''a''" timeout]
  by (simp add: example_world_def)

text \<open>
  C4, as stated, fails: 204 is a success status of HTTP, and for a response with status
  204 and no paragraph text (0 characters, fewer than 50) \<open>crawl_article\<close> returns the
  "access restricted" marker, not the "no content" marker, because line 56 compares
  the status code with 200.
\<close>

theorem crawl_article_204_counterexample:
  "requests_get no_content_204_world [] (ascii ''a/x'')
     = Inr \<lparr>status_code = 204, resp_text = []\<rparr>
   \<and> find_all_p no_content_204_world [] = Inr []
   \<and> length (join (ascii '' '') []) < 50
   \<and> fst (crawl_article no_content_204_world (ascii ''a/x'') []) = Inr access_restricted
   \<and> access_restricted \<noteq> no_content"
  by (simp add: crawl_article_def crawl_article_try_def try_except_def bind_def call_def
      return_def no_content_204_world_def access_restricted_def no_content_def)

text \<open>
  C4, amended: for a response whose status code is 200 and whose paragraph texts, joined
  with single spaces, have fewer than 50 characters, \<open>crawl_article\<close> returns the
  "no content" marker; for a response with any other status code, the other success
  codes of HTTP included, it returns the "access restricted" marker.
\<close>

theorem crawl_article_markers:
  "(requests_get w tr url = Inr response \<and> status_code response \<noteq> 200
      \<longrightarrow> fst (crawl_article w url tr) = Inr access_restricted)
   \<and> (requests_get w tr url = Inr response \<and> status_code response = 200
        \<and> find_all_p w (resp_text response) = Inr paragraphs
        \<and> length (join (ascii '' '') paragraphs) < 50
      \<longrightarrow> fst (crawl_article w url tr) = Inr no_content)"
  by (simp add: crawl_article_def crawl_article_try_def try_except_def bind_def call_def
      return_def lift_def)

theorem crawl_article_markers_witness:
  "fst (crawl_article example_world (ascii ''c/x'') []) = Inr access_restricted
   \<and> fst (crawl_article example_world (ascii ''b/x'') []) = Inr no_content"
proof -
  have a: "requests_get example_world [] (ascii ''c/x'') = Inr \<lparr>status_code = 404, resp_text = []\<rparr>
           \<and> status_code \<lparr>status_code = 404, resp_text = []\<rparr> \<noteq> 200"
    by (simp add: example_world_def ascii_def)
  have b: "requests_get example_world [] (ascii ''b/x'') = Inr \<lparr>status_code = 200, resp_text = ascii ''short''\<rparr>
           \<and> status_code \<lparr>status_code = 200, resp_text = ascii ''short''\<rparr> = 200
           \<and> find_all_p example_world (resp_text \<lparr>status_code = 200, resp_text = ascii ''short''\<rparr>)
               = Inr [ascii ''hi'', ascii ''there'']
           \<and> length (join (ascii '' '') [ascii ''hi'', ascii ''there'']) < 50"
    by (simp add: example_world_def ascii_def)
  from a b
    crawl_article_markers [of example_world "[]" "ascii ''c/x''" "\<lparr>status_code = 404, resp_text = []\<rparr>"]
    crawl_article_markers [of example_world "[]" "ascii ''b/x''" "\<lparr>status_code = 200, resp_text = ascii ''short''\<rparr>" "[ascii ''hi'', ascii ''there'']"]
  show ?thesis by blast
qed

text \<open>
  C3: for every keyword \<open>fetch_google_news\<close> returns a list (it never raises) of at most
  two items, and the empty list when the parsed feed has no entries.
\<close>

theorem fetch_google_news_at_most_two:
  "\<exists>items tr'. fetch_google_news w keyword tr = (Inr items, tr') \<and> length items \<le> 2
     \<and> (feedparser_parse w tr (rss_url w keyword) = [] \<longrightarrow> items = [])"
proof -
  obtain items tr' where f: "fetch_google_news w keyword tr = (Inr items, tr')"
    and l: "length items = length (take 2 (feedparser_parse w tr (rss_url w keyword)))"
    using fetch_google_news_returns [of w keyword tr] by blast
  from l have "length items \<le> 2" by simp
  moreover from l have "feedparser_parse w tr (rss_url w keyword) = [] \<longrightarrow> items = []" by auto
  ultimately show ?thesis using f by blast
qed

theorem fetch_google_news_at_most_two_witness:
  "feedparser_parse (example_world\<lparr>feedparser_parse := \<lambda>tr url. []\<rparr>) []
      (rss_url (example_world\<lparr>feedparser_parse := \<lambda>tr url. []\<rparr>) (ascii ''ev'')) = []
   \<and> fst (fetch_google_news (example_world\<lparr>feedparser_parse := \<lambda>tr url. []\<rparr>) (ascii ''ev'') []) = Inr []
   \<and> (\<exists>items. fst (fetch_google_news example_world (ascii ''ev'') []) = Inr items \<and> length items \<le> 2)"
  using fetch_google_news_at_most_two [of "example_world\<lparr>feedparser_parse := \<lambda>tr url. []\<rparr>" "ascii ''ev''" "[]"]
    fetch_google_news_at_most_two [of example_world "ascii ''ev''" "[]"]
  by (auto simp add: example_world_def)

text \<open>
  C1 fails on the code. Line 69 cuts the text of the success path to 3000 characters,
  for the input limit of the model, but the \<open>except\<close> branch of line 71 returns the
  error prefix followed by the whole message of the exception. For a URL of 3000
  characters that \<open>requests.get\<close> refuses with a message quoting the URL,
  \<open>crawl_article\<close> returns more than 3000 characters.
\<close>

theorem crawl_article_exceeds_limit:
  "fst (crawl_article no_scheme_world (replicate 3000 97) [])
     = Inr (crawling_error @ ascii ''Invalid URL '' @ replicate 3000 97
              @ ascii '': No scheme supplied'')
   \<and> \<not> length (crawling_error @ ascii ''Invalid URL '' @ replicate 3000 97
                 @ ascii '': No scheme supplied'') \<le> 3000"
  by (simp add: crawl_article_def crawl_article_try_def try_except_def bind_def call_def
      return_def no_scheme_world_def crawling_error_def ascii_def)

text \<open>
  C6: for a prompt equal to one of the greeting phrases, the handler answers with the
  fixed greeting reply and leaves the log as it was: no feed request, no scrape, no model
  call and no archive write.
\<close>

theorem chat_response_greeting:
  "prompt \<in> set greetings \<Longrightarrow> chat_response w prompt tr = (Inr greeting_reply, tr)"
  by (simp add: chat_response_def return_def)

theorem chat_response_greeting_witness:
  "[50504, 45397] \<in> set greetings
   \<and> chat_response example_world [50504, 45397] [] = (Inr greeting_reply, [])
   \<and> [48152, 44032, 50892] \<in> set greetings
   \<and> chat_response example_world [48152, 44032, 50892] [] = (Inr greeting_reply, [])"
proof -
  have a: "[50504, 45397] \<in> set greetings" and b: "[48152, 44032, 50892] \<in> set greetings"
    by (simp_all add: greetings_def)
  from chat_response_greeting [OF a, of example_world "[]"]
    chat_response_greeting [OF b, of example_world "[]"] a b
  show ?thesis by simp
qed

text \<open>
  C5: when the fetch of the handler (made for a prompt that is no greeting) returns no
  item, the handler answers with the fixed not-found message; the only events are the
  progress notice and the feed request, so the model is not called and nothing is
  written to the archive.
\<close>

theorem chat_response_not_found:
  assumes "prompt \<notin> set greetings"
    and "fetch_google_news w prompt (tr @ [Markdown progress_notice]) = (Inr [], tr')"
  shows "chat_response w prompt tr = (Inr not_found, tr')
     \<and> tr' = tr @ [Markdown progress_notice, FeedparserParse (rss_url w prompt)]
     \<and> filter model_call [Markdown progress_notice, FeedparserParse (rss_url w prompt)] = []
     \<and> filter archive_write [Markdown progress_notice, FeedparserParse (rss_url w prompt)] = []"
proof -
  have "chat_response w prompt tr = (Inr not_found, tr')"
    using assms by (simp add: chat_response_def bind_def emit_def return_def)
  moreover have "tr' = tr @ [Markdown progress_notice, FeedparserParse (rss_url w prompt)]"
    using assms(2) fetch_google_news_returns [of w prompt "tr @ [Markdown progress_notice]"]
    by auto
  ultimately show ?thesis by simp
qed

theorem chat_response_not_found_witness:
  "ascii ''ev'' \<notin> set greetings
   \<and> fetch_google_news (example_world\<lparr>feedparser_parse := \<lambda>tr url. []\<rparr>) (ascii ''ev'')
         ([] @ [Markdown progress_notice])
       = (Inr [], [Markdown progress_notice,
                   FeedparserParse (rss_url (example_world\<lparr>feedparser_parse := \<lambda>tr url. []\<rparr>)
                                      (ascii ''ev''))])
   \<and> chat_response (example_world\<lparr>feedparser_parse := \<lambda>tr url. []\<rparr>) (ascii ''ev'') []
       = (Inr not_found,
          [Markdown progress_notice,
           FeedparserParse (rss_url (example_world\<lparr>feedparser_parse := \<lambda>tr url. []\<rparr>)
                              (ascii ''ev''))])"
proof -
  let ?w = "example_world\<lparr>feedparser_parse := \<lambda>tr url. []\<rparr>"
  have a: "ascii ''ev'' \<notin> set greetings"
    by (simp add: greetings_def ascii_def)
  have b: "fetch_google_news ?w (ascii ''ev'') ([] @ [Markdown progress_notice])
             = (Inr [], [Markdown progress_notice, FeedparserParse (rss_url ?w (ascii ''ev''))])"
    by (simp add: fetch_google_news_def bind_def call_def return_def example_world_def)
  from a b chat_response_not_found [OF a b] show ?thesis by simp
qed

text \<open>
  C8: when the model call inside \<open>summarize_news\<close> raises, \<open>summarize_news\<close> raises the
  same exception; the chat handler and \<open>scheduled_job\<close>, once their fetch has returned at
  least one item, raise it too, with the model call as the last event (no archive write,
  no completion line); and the scheduler loop that ran the job ends with it.
\<close>

theorem model_failure_propagates:
  assumes "chat_completions_create w tr1 MODEL_NAME (system_prompt query)
             (prompt_text_loop 1 items []) = Inl e"
  shows "summarize_news w items query tr1 =
           (Inl e, tr1 @ [ChatCompletionsCreate MODEL_NAME (system_prompt query)
                            (prompt_text_loop 1 items [])])
     \<and> (query \<notin> set greetings
          \<and> fetch_google_news w query (tr @ [Markdown progress_notice]) = (Inr items, tr1)
          \<and> items \<noteq> []
        \<longrightarrow> chat_response w query tr =
              (Inl e, tr1 @ [ChatCompletionsCreate MODEL_NAME (system_prompt query)
                               (prompt_text_loop 1 items [])]))
     \<and> (query = target_keyword
          \<and> fetch_google_news w target_keyword (tr @ [Print job_start_line]) = (Inr items, tr1)
          \<and> items \<noteq> []
        \<longrightarrow> scheduled_job w tr =
              (Inl e, tr1 @ [ChatCompletionsCreate MODEL_NAME (system_prompt query)
                               (prompt_text_loop 1 items [])])
            \<and> (job_pending w tr
                 \<longrightarrow> start_scheduler w (Suc n) tr =
                       (Inl e, tr1 @ [ChatCompletionsCreate MODEL_NAME (system_prompt query)
                                        (prompt_text_loop 1 items [])])))"
proof -
  let ?log = "tr1 @ [ChatCompletionsCreate MODEL_NAME (system_prompt query)
                       (prompt_text_loop 1 items [])]"
  have s: "summarize_news w items query tr1 = (Inl e, ?log)"
    using assms by (simp add: summarize_news_result)
  have c: "chat_response w query tr = (Inl e, ?log)"
    if "query \<notin> set greetings"
      and "fetch_google_news w query (tr @ [Markdown progress_notice]) = (Inr items, tr1)"
      and "items \<noteq> []"
    using that s by (simp add: chat_response_unfold)
  have j: "scheduled_job w tr = (Inl e, ?log)"
    if "query = target_keyword"
      and "fetch_google_news w target_keyword (tr @ [Print job_start_line]) = (Inr items, tr1)"
      and "items \<noteq> []"
    using that s by (simp add: scheduled_job_unfold)
  have l: "start_scheduler w (Suc n) tr = (Inl e, ?log)"
    if "scheduled_job w tr = (Inl e, ?log)" and "job_pending w tr"
    using that by (simp only: start_scheduler_round) simp
  from s c j l show ?thesis by blast
qed

theorem model_failure_propagates_witness:
  "chat_completions_create (example_world\<lparr>chat_completions_create := \<lambda>tr m s u. Inl timeout\<rparr>)
      ([Print job_start_line] @ example_requests target_keyword)
      MODEL_NAME (system_prompt target_keyword) (prompt_text_loop 1 example_items []) = Inl timeout
   \<and> target_keyword \<notin> set greetings
   \<and> example_items \<noteq> []
   \<and> fetch_google_news (example_world\<lparr>chat_completions_create := \<lambda>tr m s u. Inl timeout\<rparr>)
        target_keyword ([] @ [Print job_start_line])
       = (Inr example_items, [Print job_start_line] @ example_requests target_keyword)
   \<and> fetch_google_news (example_world\<lparr>chat_completions_create := \<lambda>tr m s u. Inl timeout\<rparr>)
        target_keyword ([] @ [Markdown progress_notice])
       = (Inr example_items, [Markdown progress_notice] @ example_requests target_keyword)
   \<and> job_pending (example_world\<lparr>chat_completions_create := \<lambda>tr m s u. Inl timeout\<rparr>) []
   \<and> fst (summarize_news (example_world\<lparr>chat_completions_create := \<lambda>tr m s u. Inl timeout\<rparr>)
            example_items target_keyword ([Print job_start_line] @ example_requests target_keyword))
       = Inl timeout
   \<and> fst (chat_response (example_world\<lparr>chat_completions_create := \<lambda>tr m s u. Inl timeout\<rparr>)
            target_keyword []) = Inl timeout
   \<and> scheduled_job (example_world\<lparr>chat_completions_create := \<lambda>tr m s u. Inl timeout\<rparr>) []
       = (Inl timeout,
          [Print job_start_line] @ example_requests target_keyword
            @ [ChatCompletionsCreate MODEL_NAME (system_prompt target_keyword)
                 (prompt_text_loop 1 example_items [])])
   \<and> fst (start_scheduler (example_world\<lparr>chat_completions_create := \<lambda>tr m s u. Inl timeout\<rparr>)
            (Suc 0) []) = Inl timeout"
proof -
  let ?w = "example_world\<lparr>chat_completions_create := \<lambda>tr m s u. Inl timeout\<rparr>"
  let ?job = "[Print job_start_line] @ example_requests target_keyword"
  let ?chat = "[Markdown progress_notice] @ example_requests target_keyword"
  have m: "chat_completions_create ?w tr1 MODEL_NAME (system_prompt target_keyword)
             (prompt_text_loop 1 example_items []) = Inl timeout" for tr1
    by simp
  have g: "target_keyword \<notin> set greetings"
    by (simp add: greetings_def target_keyword_def)
  have i: "example_items \<noteq> []"
    by (simp add: example_items_def)
  have f: "fetch_google_news ?w target_keyword ([] @ [ev]) =
             (Inr example_items, [ev] @ example_requests target_keyword)" for ev
    using example_fetch [of ?w target_keyword "[] @ [ev]"] by (simp add: example_world_def)
  have p: "job_pending ?w []"
    by (simp add: example_world_def)
  from g i f [of "Print job_start_line"] f [of "Markdown progress_notice"] p m [of ?job]
    model_failure_propagates [OF m [of ?job], of "[]" 0]
    model_failure_propagates [OF m [of ?chat], of "[]" 0]
  show ?thesis by simp
qed

text \<open>
  C9: when the fetch of \<open>scheduled_job\<close> returns the empty list, the job prints its two
  lines around the feed request and returns: no model call, no archive write. The
  scheduler loop sleeps and goes on with its next round.
\<close>

theorem scheduled_job_empty_fetch:
  assumes "fetch_google_news w target_keyword (tr @ [Print job_start_line]) = (Inr [], tr1)"
  shows "scheduled_job w tr =
           (Inr (), tr @ [Print job_start_line, FeedparserParse (rss_url w target_keyword),
                          Print job_done_line])
     \<and> filter model_call [Print job_start_line, FeedparserParse (rss_url w target_keyword),
                           Print job_done_line] = []
     \<and> filter archive_write [Print job_start_line, FeedparserParse (rss_url w target_keyword),
                              Print job_done_line] = []
     \<and> (job_pending w tr
          \<longrightarrow> start_scheduler w (Suc n) tr =
                start_scheduler w n
                  (tr @ [Print job_start_line, FeedparserParse (rss_url w target_keyword),
                         Print job_done_line, Sleep 1]))"
proof -
  have t: "tr1 = tr @ [Print job_start_line, FeedparserParse (rss_url w target_keyword)]"
    using assms fetch_google_news_returns [of w target_keyword "tr @ [Print job_start_line]"]
    by auto
  have j: "scheduled_job w tr =
           (Inr (), tr @ [Print job_start_line, FeedparserParse (rss_url w target_keyword),
                          Print job_done_line])"
    using assms by (simp add: scheduled_job_unfold t)
  have "start_scheduler w (Suc n) tr =
          start_scheduler w n
            (tr @ [Print job_start_line, FeedparserParse (rss_url w target_keyword),
                   Print job_done_line, Sleep 1])"
    if "job_pending w tr"
    using that j by (simp only: start_scheduler_round) simp
  with j show ?thesis by simp
qed

theorem scheduled_job_empty_fetch_witness:
  "fetch_google_news (example_world\<lparr>feedparser_parse := \<lambda>tr url. []\<rparr>) target_keyword
      ([] @ [Print job_start_line])
     = (Inr [], [Print job_start_line,
                 FeedparserParse (rss_url (example_world\<lparr>feedparser_parse := \<lambda>tr url. []\<rparr>)
                                    target_keyword)])
   \<and> job_pending (example_world\<lparr>feedparser_parse := \<lambda>tr url. []\<rparr>) []
   \<and> scheduled_job (example_world\<lparr>feedparser_parse := \<lambda>tr url. []\<rparr>) []
       = (Inr (), [Print job_start_line,
                   FeedparserParse (rss_url (example_world\<lparr>feedparser_parse := \<lambda>tr url. []\<rparr>)
                                      target_keyword),
                   Print job_done_line])
   \<and> start_scheduler (example_world\<lparr>feedparser_parse := \<lambda>tr url. []\<rparr>) (Suc 0) []
       = (Inr (), [Print job_start_line,
                   FeedparserParse (rss_url (example_world\<lparr>feedparser_parse := \<lambda>tr url. []\<rparr>)
                                      target_keyword),
                   Print job_done_line, Sleep 1])"
proof -
  let ?w = "example_world\<lparr>feedparser_parse := \<lambda>tr url. []\<rparr>"
  have f: "fetch_google_news ?w target_keyword ([] @ [Print job_start_line])
             = (Inr [], [Print job_start_line, FeedparserParse (rss_url ?w target_keyword)])"
    by (simp add: fetch_google_news_def bind_def call_def return_def example_world_def)
  have p: "job_pending ?w []"
    by (simp add: example_world_def)
  from f p scheduled_job_empty_fetch [OF f, of 0] show ?thesis by (simp add: return_def)
qed

text \<open>
  C10, as stated, fails: a greeting with a leading space is no greeting for the handler,
  yet with an empty feed the handler only requests the feed and answers with the
  not-found message; it neither calls the model nor writes to the archive.
\<close>

theorem padded_greeting_counterexample:
  "[32, 50504, 45397] \<notin> set greetings
   \<and> chat_response (example_world\<lparr>feedparser_parse := \<lambda>tr url. []\<rparr>) [32, 50504, 45397] []
       = (Inr not_found,
          [Markdown progress_notice,
           FeedparserParse (rss_url (example_world\<lparr>feedparser_parse := \<lambda>tr url. []\<rparr>)
                              [32, 50504, 45397])])
   \<and> filter model_call
         (snd (chat_response (example_world\<lparr>feedparser_parse := \<lambda>tr url. []\<rparr>)
                 [32, 50504, 45397] [])) = []
   \<and> filter archive_write
         (snd (chat_response (example_world\<lparr>feedparser_parse := \<lambda>tr url. []\<rparr>)
                 [32, 50504, 45397] [])) = []"
  by (simp add: chat_response_def greetings_def fetch_google_news_def bind_def call_def
      return_def emit_def example_world_def)

text \<open>
  C10, amended: the greeting branch is taken exactly for the two phrases, so a phrase
  with anything before or after it is no greeting. For every other prompt the handler
  shows the progress notice and requests the feed for the prompt. When that fetch returns
  at least one item and the model call returns a choice, the handler calls the model and
  then writes the archive record for the prompt, the summary and the first item's link,
  and answers with the summary and the source lines.
\<close>

theorem greeting_exact_match:
  "(prompt \<in> set greetings \<longleftrightarrow> prompt = [50504, 45397] \<or> prompt = [48152, 44032, 50892])
   \<and> (g \<in> set greetings \<and> (x \<noteq> [] \<or> y \<noteq> []) \<longrightarrow> x @ g @ y \<notin> set greetings)
   \<and> (prompt \<notin> set greetings
        \<longrightarrow> (\<exists>r rest. chat_response w prompt tr =
               (r, tr @ Markdown progress_notice # FeedparserParse (rss_url w prompt) # rest)))
   \<and> (prompt \<notin> set greetings
        \<and> fetch_google_news w prompt (tr @ [Markdown progress_notice]) = (Inr items, tr1)
        \<and> items \<noteq> []
        \<and> chat_completions_create w tr1 MODEL_NAME (system_prompt prompt)
             (prompt_text_loop 1 items []) = Inr (summary # others)
        \<longrightarrow> (\<exists>line. chat_response w prompt tr =
               (Inr (source_lines items (summary_header prompt summary)),
                tr1 @ [ChatCompletionsCreate MODEL_NAME (system_prompt prompt)
                         (prompt_text_loop 1 items []),
                       NotionPagesCreate prompt summary
                         (datetime_now_isoformat w
                            (tr1 @ [ChatCompletionsCreate MODEL_NAME (system_prompt prompt)
                                      (prompt_text_loop 1 items [])]))
                         (if item_link (items ! 0) \<noteq> [] then Some (item_link (items ! 0))
                          else None),
                       Print line])))"
proof -
  let ?tr2 = "tr1 @ [ChatCompletionsCreate MODEL_NAME (system_prompt prompt)
                        (prompt_text_loop 1 items [])]"
  have a: "g \<in> set greetings \<and> (x \<noteq> [] \<or> y \<noteq> []) \<longrightarrow> x @ g @ y \<notin> set greetings"
    using greetings_extended by blast
  have b: "prompt \<notin> set greetings
        \<longrightarrow> (\<exists>r rest. chat_response w prompt tr =
               (r, tr @ Markdown progress_notice # FeedparserParse (rss_url w prompt) # rest))"
    using chat_response_log by blast
  have c: "\<exists>line. chat_response w prompt tr =
               (Inr (source_lines items (summary_header prompt summary)),
                ?tr2 @ [NotionPagesCreate prompt summary (datetime_now_isoformat w ?tr2)
                         (if item_link (items ! 0) \<noteq> [] then Some (item_link (items ! 0))
                          else None),
                       Print line])"
    if "prompt \<notin> set greetings"
      and "fetch_google_news w prompt (tr @ [Markdown progress_notice]) = (Inr items, tr1)"
      and "items \<noteq> []"
      and "chat_completions_create w tr1 MODEL_NAME (system_prompt prompt)
             (prompt_text_loop 1 items []) = Inr (summary # others)"
  proof -
    obtain saved line where
      "save_to_notion w prompt summary (Some (item_link (items ! 0))) ?tr2 =
        (Inr saved, ?tr2 @ [NotionPagesCreate prompt summary (datetime_now_isoformat w ?tr2)
              (if item_link (items ! 0) \<noteq> [] then Some (item_link (items ! 0)) else None),
            Print line])"
      using save_to_notion_result [of w prompt summary "Some (item_link (items ! 0))" ?tr2]
      by auto
    with that show ?thesis
      by (simp add: chat_response_unfold summarize_news_result)
  qed
  from a b c greetings_iff [of prompt] show ?thesis by simp
qed

theorem greeting_exact_match_witness:
  "[50504, 45397] \<in> set greetings
   \<and> [32] @ [50504, 45397] @ [] \<notin> set greetings
   \<and> [] @ [50504, 45397] @ [54616, 49464, 50836] \<notin> set greetings
   \<and> fetch_google_news example_world [32, 50504, 45397] ([] @ [Markdown progress_notice])
       = (Inr example_items, [Markdown progress_notice] @ example_requests [32, 50504, 45397])
   \<and> example_items \<noteq> []
   \<and> chat_completions_create example_world
        ([Markdown progress_notice] @ example_requests [32, 50504, 45397])
        MODEL_NAME (system_prompt [32, 50504, 45397]) (prompt_text_loop 1 example_items [])
       = Inr [ascii ''summary'']
   \<and> (\<exists>line. chat_response example_world [32, 50504, 45397] [] =
         (Inr (source_lines example_items (summary_header [32, 50504, 45397] (ascii ''summary''))),
          [Markdown progress_notice] @ example_requests [32, 50504, 45397]
            @ [ChatCompletionsCreate MODEL_NAME (system_prompt [32, 50504, 45397])
                 (prompt_text_loop 1 example_items []),
               NotionPagesCreate [32, 50504, 45397] (ascii ''summary'')
                 (ascii ''2024-01-01T09:00:00'') (Some (ascii ''a/x'')),
               Print line]))"
proof -
  let ?p = "[32, 50504, 45397] :: str"
  let ?tr1 = "[Markdown progress_notice] @ example_requests ?p"
  have g: "[50504, 45397] \<in> set greetings"
    by (simp add: greetings_def)
  have f: "fetch_google_news example_world ?p ([] @ [Markdown progress_notice])
             = (Inr example_items, ?tr1)"
    using example_fetch [of example_world ?p "[] @ [Markdown progress_notice]"]
    by (simp add: example_world_def)
  have i: "example_items \<noteq> []"
    by (simp add: example_items_def)
  have m: "chat_completions_create example_world ?tr1 MODEL_NAME (system_prompt ?p)
             (prompt_text_loop 1 example_items []) = Inr [ascii ''summary'']"
    by (simp add: example_world_def)
  have l: "item_link (example_items ! 0) = ascii ''a/x''"
       "datetime_now_isoformat example_world tr = ascii ''2024-01-01T09:00:00''" for tr
    by (simp_all add: example_items_def example_world_def)
  have n: "ascii ''a/x'' \<noteq> []"
    by (simp add: ascii_def)
  from g f i m
    greeting_exact_match [of ?p "[50504, 45397]" "[32]" "[]" example_world "[]" example_items
      ?tr1 "ascii ''summary''" "[]"]
    greeting_exact_match [of ?p "[50504, 45397]" "[]" "[54616, 49464, 50836]" example_world "[]"
      example_items ?tr1 "ascii ''summary''" "[]"]
  show ?thesis by (simp add: l n)
qed

text \<open>
  C2 fails on the code: the guard is a key of \<open>st.session_state\<close>, which every session
  has for itself. Two sessions on one process, each followed by an interaction, start
  two scheduler threads.
\<close>

theorem scheduler_started_per_session:
  "threads_started (process_run example_config [OpenSession, Interact 0, OpenSession, Interact 1]) = 2"
  by (simp add: process_run_def process_step_def process_start_def script_run_def
      example_config_def missing_def empty_session_state_def ascii_def)

end
